theory Spec2Isabelle
  imports Complex_Main "HOL-Library.Word"
begin

unbundle bit_operations_syntax

section \<open>Voice recognition service: backend/voice_recognition_service.py\<close>

text \<open>
  The module has four operations: \<open>extract_audio_features\<close>, \<open>enroll_voice\<close>,
  \<open>verify_voice\<close> and \<open>detect_voice_in_audio\<close>. Each is a \<^verbatim>\<open>try\<close> block around a
  straight-line body. The embedding keeps that shape: every operation has a \<open>_body\<close>
  function for the statements inside \<^verbatim>\<open>try\<close>, returning \<open>exn + 'a\<close> (\<open>Inl\<close> is a raised
  exception), and the operation itself applies the \<^verbatim>\<open>except Exception as e\<close> handler.

  Modelling conventions.
  \<^item> A Python \<^verbatim>\<open>str\<close> is a \<open>string\<close>; a character with code above 127 stands for any
    non-ASCII code point.
  \<^item> An element of a \<^verbatim>\<open>uint8\<close> array is an \<open>8 word\<close>.
  \<^item> A Python or numpy \<^verbatim>\<open>float\<close> is idealised as a \<open>real\<close>: arithmetic is exact, there
    is no rounding, no infinity and no nan. Statements below that name a numeric value
    are statements about this exact arithmetic.
  \<^item> Library functions (\<^verbatim>\<open>base64\<close>, \<^verbatim>\<open>numpy\<close>) are written out after their documented
    behaviour; the two functions delegated to \<^verbatim>\<open>face_recognition_service\<close> and the two
    \<^verbatim>\<open>json\<close> functions are parameters, collected in the record \<open>collaborators\<close>.
\<close>

subsection \<open>Exceptions\<close>

datatype exn =
    ValueError string
  | BinasciiError string
  | IndexError string
  | FloatingPointError string
  | Exception string

text \<open>\<^verbatim>\<open>str(e)\<close>: the message of an exception.\<close>

fun exn_str :: "exn \<Rightarrow> string" where
  "exn_str (ValueError m) = m"
| "exn_str (BinasciiError m) = m"
| "exn_str (IndexError m) = m"
| "exn_str (FloatingPointError m) = m"
| "exn_str (Exception m) = m"

subsection \<open>Strings: membership, split and indexing\<close>

text \<open>\<^verbatim>\<open>s.split(sep)\<close> for a one-character separator: the fields between the separators,
  at least one field, empty fields kept.\<close>

fun split_chr :: "char \<Rightarrow> string \<Rightarrow> string list" where
  "split_chr sep [] = [[]]"
| "split_chr sep (c # cs) =
     (if c = sep then [] # split_chr sep cs
      else (case split_chr sep cs of
              f # fs \<Rightarrow> (c # f) # fs
            | [] \<Rightarrow> [[c]]))"

text \<open>\<^verbatim>\<open>xs[i]\<close> for a non-negative index: IndexError past the end.\<close>

definition py_index :: "'a list \<Rightarrow> nat \<Rightarrow> exn + 'a" where
  "py_index xs i =
     (if i < length xs then Inr (xs ! i) else Inl (IndexError ''list index out of range''))"

text \<open>Lines 31-33 and 142-144, the same two statements in both operations:
  \<^verbatim>\<open>if ',' in audio_base64: audio_base64 = audio_base64.split(',')[1]\<close>.\<close>

definition remove_data_url_prefix :: "string \<Rightarrow> exn + string" where
  "remove_data_url_prefix audio_base64 =
     (if CHR '','' \<in> set audio_base64
      then py_index (split_chr (CHR '','') audio_base64) 1
      else Inr audio_base64)"

subsection \<open>base64.b64decode\<close>

text \<open>The decoding table of \<^verbatim>\<open>binascii\<close>: the 6-bit value of an alphabet character,
  \<open>None\<close> for every other character.\<close>

definition table_a2b_base64 :: "char \<Rightarrow> 8 word option" where
  "table_a2b_base64 c =
     (let n = (of_char c :: nat) in
      if 65 \<le> n \<and> n \<le> 90 then Some (of_nat (n - 65))
      else if 97 \<le> n \<and> n \<le> 122 then Some (of_nat (n - 71))
      else if 48 \<le> n \<and> n \<le> 57 then Some (of_nat (n + 4))
      else if n = 43 then Some 62
      else if n = 47 then Some 63
      else None)"

text \<open>A number printed in decimal, as \<^verbatim>\<open>%d\<close> formats it in a library message.\<close>

definition digit_chr :: "nat \<Rightarrow> char" where
  "digit_chr d = char_of (of_char (CHR ''0'') + d)"

fun decimal :: "nat \<Rightarrow> string" where
  "decimal n =
     (if n div 10 = 0 then [digit_chr n]
      else decimal (n div 10) @ [digit_chr (n mod 10)])"

declare decimal.simps [simp del]

text \<open>\<^verbatim>\<open>binascii.a2b_base64\<close> without strict mode, as CPython's loop runs: \<open>quad_pos\<close> is
  the position in the current group of four, \<open>leftchar\<close> the bits not yet written,
  \<open>pads\<close> the padding characters seen since the last data character, \<open>bin_data\<close> the
  bytes written so far. A character outside the alphabet is skipped; padding that
  completes a group ends the decoding; input that ends inside a group is an error.\<close>

fun a2b_base64 :: "nat \<Rightarrow> 8 word \<Rightarrow> nat \<Rightarrow> 8 word list \<Rightarrow> string \<Rightarrow> exn + 8 word list" where
  "a2b_base64 quad_pos leftchar pads bin_data [] =
     (if quad_pos \<noteq> 0 then
        (if quad_pos = 1 then
           Inl (BinasciiError (''Invalid base64-encoded string: number of data characters (''
             @ decimal (length bin_data div 3 * 4 + 1)
             @ '') cannot be 1 more than a multiple of 4''))
         else Inl (BinasciiError ''Incorrect padding''))
      else Inr bin_data)"
| "a2b_base64 quad_pos leftchar pads bin_data (this_ch # rest) =
     (if this_ch = CHR ''='' then
        (if quad_pos \<ge> 2 \<and> quad_pos + (pads + 1) \<ge> 4 then Inr bin_data
         else a2b_base64 quad_pos leftchar (if quad_pos \<ge> 2 then pads + 1 else pads)
                bin_data rest)
      else
        (case table_a2b_base64 this_ch of
           None \<Rightarrow> a2b_base64 quad_pos leftchar pads bin_data rest
         | Some v \<Rightarrow>
             (if quad_pos = 0 then a2b_base64 1 v 0 bin_data rest
              else if quad_pos = 1 then
                a2b_base64 2 (v AND 0x0f) 0
                  (bin_data @ [push_bit 2 leftchar OR drop_bit 4 v]) rest
              else if quad_pos = 2 then
                a2b_base64 3 (v AND 0x03) 0
                  (bin_data @ [push_bit 4 leftchar OR drop_bit 2 v]) rest
              else
                a2b_base64 0 0 0 (bin_data @ [push_bit 6 leftchar OR v]) rest)))"

text \<open>\<^verbatim>\<open>base64.b64decode(s)\<close> on a \<^verbatim>\<open>str\<close>: the string is first encoded as ASCII, which
  raises ValueError on any other character.\<close>

definition b64decode :: "string \<Rightarrow> exn + 8 word list" where
  "b64decode s =
     (if \<exists>c \<in> set s. (of_char c :: nat) > 127
      then Inl (ValueError ''string argument should contain only ASCII characters'')
      else a2b_base64 0 0 0 [] s)"

subsection \<open>numpy on a byte array\<close>

text \<open>\<^verbatim>\<open>float(b)\<close> of an unsigned byte.\<close>

definition byte_float :: "8 word \<Rightarrow> real" where
  "byte_float b = real (unat b)"

text \<open>\<^verbatim>\<open>np.mean\<close> and \<^verbatim>\<open>np.std\<close> (population standard deviation). On an empty array
  numpy warns and returns nan; the extractor never uses that value, because \<^verbatim>\<open>np.max\<close>
  raises on the same array two statements later.\<close>

definition np_mean :: "8 word list \<Rightarrow> real" where
  "np_mean a = (\<Sum>b\<leftarrow>a. byte_float b) / real (length a)"

definition np_std :: "8 word list \<Rightarrow> real" where
  "np_std a = sqrt ((\<Sum>b\<leftarrow>a. (byte_float b - np_mean a)\<^sup>2) / real (length a))"

text \<open>\<^verbatim>\<open>np.max\<close> and \<^verbatim>\<open>np.min\<close>: a reduction with no identity raises ValueError on an
  empty array.\<close>

definition np_max :: "8 word list \<Rightarrow> exn + 8 word" where
  "np_max a =
     (if a = [] then
        Inl (ValueError
          ''zero-size array to reduction operation maximum which has no identity'')
      else Inr (Max (set a)))"

definition np_min :: "8 word list \<Rightarrow> exn + 8 word" where
  "np_min a =
     (if a = [] then
        Inl (ValueError
          ''zero-size array to reduction operation minimum which has no identity'')
      else Inr (Min (set a)))"

text \<open>\<^verbatim>\<open>np.median\<close>: the middle of the sorted values, the mean of the two middle values
  for an even count.\<close>

definition np_median :: "8 word list \<Rightarrow> real" where
  "np_median a =
     (let s = sort (map byte_float a); n = length s in
      if n mod 2 = 1 then s ! (n div 2)
      else (s ! (n div 2 - 1) + s ! (n div 2)) / 2)"

text \<open>\<^verbatim>\<open>np.histogram(a, bins)\<close>, the counts only. The range is from the least to the
  greatest value, widened by one half on both sides when they coincide; the bins have
  equal width, every bin is closed on the left and open on the right but the last,
  which is closed on both sides.\<close>

definition histogram_outer_edges :: "real list \<Rightarrow> real \<times> real" where
  "histogram_outer_edges xs =
     (if xs = [] then (0, 1)
      else (let first_edge = Min (set xs); last_edge = Max (set xs) in
            if first_edge = last_edge then (first_edge - 1 / 2, last_edge + 1 / 2)
            else (first_edge, last_edge)))"

definition histogram_bin :: "real \<Rightarrow> real \<Rightarrow> nat \<Rightarrow> real \<Rightarrow> nat" where
  "histogram_bin first_edge last_edge bins x =
     (if x = last_edge then bins - 1
      else nat \<lfloor>(x - first_edge) / (last_edge - first_edge) * real bins\<rfloor>)"

definition np_histogram :: "8 word list \<Rightarrow> nat \<Rightarrow> nat list" where
  "np_histogram a bins =
     (let xs = map byte_float a;
          (first_edge, last_edge) = histogram_outer_edges xs
      in map (\<lambda>i. length (filter (\<lambda>x. histogram_bin first_edge last_edge bins x = i) xs))
           [0..<bins])"

text \<open>\<^verbatim>\<open>np.fft.fft\<close>: the discrete Fourier transform, as many coefficients as samples.\<close>

definition np_fft_fft :: "8 word list \<Rightarrow> complex list" where
  "np_fft_fft a =
     (let n = length a in
      map (\<lambda>k. \<Sum>m\<leftarrow>[0..<n].
                 of_real (byte_float (a ! m)) * cis (- 2 * pi * real k * real m / real n))
        [0..<n])"

subsection \<open>Feature extractor\<close>

definition extract_audio_features_body :: "string \<Rightarrow> exn + real list" where
  "extract_audio_features_body audio_base64 =
     (case remove_data_url_prefix audio_base64 of
        Inl e \<Rightarrow> Inl e
      | Inr payload \<Rightarrow>
     (case b64decode payload of
        Inl e \<Rightarrow> Inl e
      | Inr byte_array \<Rightarrow>
     (case np_max byte_array of
        Inl e \<Rightarrow> Inl e
      | Inr mx \<Rightarrow>
     (case np_min byte_array of
        Inl e \<Rightarrow> Inl e
      | Inr mn \<Rightarrow>
          (let features = [np_mean byte_array, np_std byte_array,
                           byte_float mx, byte_float mn, np_median byte_array];
               hist = np_histogram byte_array 50;
               features = features @ take 50 (map real hist);
               features =
                 (if length byte_array > 512 then
                    (let fft = np_fft_fft (take 512 byte_array);
                         fft_magnitude = take 50 (map cmod fft)
                     in features @ fft_magnitude)
                  else features);
               target_size = 200
           in Inr (if length features < target_size
                   then features @ replicate (target_size - length features) 0
                   else take target_size features))))))"

definition extract_audio_features :: "string \<Rightarrow> exn + real list" where
  "extract_audio_features audio_base64 =
     (case extract_audio_features_body audio_base64 of
        Inr features \<Rightarrow> Inr features
      | Inl e \<Rightarrow> Inl (ValueError (''Audio feature extraction failed: '' @ exn_str e)))"

subsection \<open>Collaborators\<close>

text \<open>\<^verbatim>\<open>encrypt_data\<close> and \<^verbatim>\<open>decrypt_data\<close> only forward to the functions of the same name
  in \<^verbatim>\<open>face_recognition_service\<close>, which this module imports; \<^verbatim>\<open>json.dumps\<close> and
  \<^verbatim>\<open>json.loads\<close> write and read the stored text. All four are parameters. A parsed
  document is a flat array of numbers, which is what \<open>enroll_voice\<close> stores; the parameter
  \<open>json_loads\<close> answers with an exception for a text it does not read as one.\<close>

record collaborators =
  fr_encrypt_data :: "string \<Rightarrow> exn + string"
  fr_decrypt_data :: "string \<Rightarrow> exn + string"
  json_dumps :: "real list \<Rightarrow> string"
  json_loads :: "string \<Rightarrow> exn + real list"

definition encrypt_data :: "collaborators \<Rightarrow> string \<Rightarrow> exn + string" where
  "encrypt_data env data = fr_encrypt_data env data"

definition decrypt_data :: "collaborators \<Rightarrow> string \<Rightarrow> exn + string" where
  "decrypt_data env encrypted_data = fr_decrypt_data env encrypted_data"

subsection \<open>Enrollment\<close>

definition enroll_voice_body :: "collaborators \<Rightarrow> string \<Rightarrow> exn + string" where
  "enroll_voice_body env audio_base64 =
     (case extract_audio_features audio_base64 of
        Inl e \<Rightarrow> Inl e
      | Inr voice_features \<Rightarrow>
          (let features_json = json_dumps env voice_features
           in encrypt_data env features_json))"

definition enroll_voice :: "collaborators \<Rightarrow> string \<Rightarrow> exn + string" where
  "enroll_voice env audio_base64 =
     (case enroll_voice_body env audio_base64 of
        Inr encrypted_features \<Rightarrow> Inr encrypted_features
      | Inl e \<Rightarrow> Inl (ValueError (''Voice enrollment failed: '' @ exn_str e)))"

subsection \<open>Verification\<close>

record verification =
  success :: bool
  confidence :: real
  similarity :: real
  threshold :: real

text \<open>\<^verbatim>\<open>np.dot\<close> of two one-dimensional arrays raises ValueError unless they have the
  same length.\<close>

definition np_dot :: "real list \<Rightarrow> real list \<Rightarrow> exn + real" where
  "np_dot a b =
     (if length a \<noteq> length b then
        Inl (ValueError (''shapes ('' @ decimal (length a) @ '',) and (''
               @ decimal (length b) @ '',) not aligned: ''
               @ decimal (length a) @ '' (dim 0) != ''
               @ decimal (length b) @ '' (dim 0)''))
      else Inr (\<Sum>(x, y)\<leftarrow>zip a b. x * y))"

definition np_linalg_norm :: "real list \<Rightarrow> real" where
  "np_linalg_norm a = sqrt (\<Sum>x\<leftarrow>a. x\<^sup>2)"

text \<open>The division of line 119. A quotient by zero has no value in exact arithmetic
  (numpy yields an infinity or nan and warns, or raises FloatingPointError when so
  configured); here it is a failure, so that a result of \<open>verify_voice\<close> never comes
  from a division by zero.\<close>

definition np_true_divide :: "real \<Rightarrow> real \<Rightarrow> exn + real" where
  "np_true_divide x y =
     (if y = 0 then Inl (FloatingPointError ''divide by zero encountered in scalar divide'')
      else Inr (x / y))"

definition verify_voice_body :: "collaborators \<Rightarrow> string \<Rightarrow> string \<Rightarrow> real \<Rightarrow> exn + verification" where
  "verify_voice_body env audio_base64 stored_encrypted_features tolerance =
     (case extract_audio_features audio_base64 of
        Inl e \<Rightarrow> Inl e
      | Inr new_features \<Rightarrow>
     (case decrypt_data env stored_encrypted_features of
        Inl e \<Rightarrow> Inl e
      | Inr decrypted_json \<Rightarrow>
     (case json_loads env decrypted_json of
        Inl e \<Rightarrow> Inl e
      | Inr stored_features \<Rightarrow>
     (case np_dot new_features stored_features of
        Inl e \<Rightarrow> Inl e
      | Inr dot_product \<Rightarrow>
          (let norm_a = np_linalg_norm new_features;
               norm_b = np_linalg_norm stored_features
           in (case (if norm_a = 0 \<or> norm_b = 0 then Inr 0
                     else np_true_divide dot_product (norm_a * norm_b)) of
                 Inl e \<Rightarrow> Inl e
               | Inr sim \<Rightarrow>
                   (let is_match = (sim \<ge> 1 - tolerance);
                        conf = max 0 (min 100 (sim * 100))
                    in Inr \<lparr>success = is_match, confidence = conf,
                            similarity = sim, threshold = 1 - tolerance\<rparr>)))))))"

definition verify_voice :: "collaborators \<Rightarrow> string \<Rightarrow> string \<Rightarrow> real \<Rightarrow> exn + verification" where
  "verify_voice env audio_base64 stored_encrypted_features tolerance =
     (case verify_voice_body env audio_base64 stored_encrypted_features tolerance of
        Inr r \<Rightarrow> Inr r
      | Inl e \<Rightarrow> Inl (ValueError (''Voice verification failed: '' @ exn_str e)))"

text \<open>The default of the parameter \<^verbatim>\<open>tolerance\<close>.\<close>

definition default_tolerance :: real where
  "default_tolerance = 65 / 100"

subsection \<open>Voice-activity check\<close>

text \<open>The dictionary the operation returns: the key \<^verbatim>\<open>energy\<close> is present in one of the
  three return statements only.\<close>

record vad_result =
  voice_detected :: bool
  energy :: "real option"
  message :: string

text \<open>\<^verbatim>\<open>np.sum(byte_array.astype(float) ** 2)\<close>.\<close>

definition np_sum_squares :: "8 word list \<Rightarrow> real" where
  "np_sum_squares byte_array = (\<Sum>b\<leftarrow>byte_array. (real (unat b))\<^sup>2)"

definition detect_voice_in_audio_body :: "string \<Rightarrow> exn + vad_result" where
  "detect_voice_in_audio_body audio_base64 =
     (case remove_data_url_prefix audio_base64 of
        Inl e \<Rightarrow> Inl e
      | Inr payload \<Rightarrow>
     (case b64decode payload of
        Inl e \<Rightarrow> Inl e
      | Inr byte_array \<Rightarrow>
          if length byte_array < 1000 then
            Inr \<lparr>voice_detected = False, energy = None,
                 message = ''Audio sample too short''\<rparr>
          else
            (let energy_sum = np_sum_squares byte_array;
                 thr = 1000000;
                 detected = (energy_sum > thr)
             in Inr \<lparr>voice_detected = detected, energy = Some energy_sum,
                     message = (if detected then ''Voice detected''
                                else ''No voice detected or audio too quiet'')\<rparr>)))"

definition detect_voice_in_audio :: "string \<Rightarrow> exn + vad_result" where
  "detect_voice_in_audio audio_base64 =
     (case detect_voice_in_audio_body audio_base64 of
        Inr r \<Rightarrow> Inr r
      | Inl e \<Rightarrow> Inr \<lparr>voice_detected = False, energy = None,
                      message = ''Error: '' @ exn_str e\<rparr>)"

section \<open>Properties\<close>

subsection \<open>Stripping the prefix\<close>

lemma split_chr_nonempty: "split_chr sep s \<noteq> []"
  by (induction s) (auto split: list.splits)

lemma split_chr_no_sep: "sep \<notin> set s \<Longrightarrow> split_chr sep s = [s]"
  by (induction s) auto

lemma split_chr_append: "sep \<notin> set a \<Longrightarrow> split_chr sep (a @ sep # b) = a # split_chr sep b"
  by (induction a) auto

lemma split_chr_length: "sep \<in> set s \<Longrightarrow> 2 \<le> length (split_chr sep s)"
proof (induction s)
  case Nil
  then show ?case by simp
next
  case (Cons c cs)
  show ?case
  proof (cases "c = sep")
    case True
    have "split_chr sep cs \<noteq> []" by (rule split_chr_nonempty)
    then have "1 \<le> length (split_chr sep cs)" by (cases "split_chr sep cs") auto
    with True show ?thesis by simp
  next
    case False
    with Cons.prems have "sep \<in> set cs" by simp
    then have "2 \<le> length (split_chr sep cs)" by (rule Cons.IH)
    with False show ?thesis by (cases "split_chr sep cs") auto
  qed
qed

lemma remove_data_url_prefix_total: "\<exists>p. remove_data_url_prefix s = Inr p"
  using split_chr_length [of "CHR '',''" s]
  by (auto simp: remove_data_url_prefix_def py_index_def)

lemma remove_data_url_prefix_no_comma:
  "CHR '','' \<notin> set s \<Longrightarrow> remove_data_url_prefix s = Inr s"
  by (simp add: remove_data_url_prefix_def)

lemma remove_data_url_prefix_field:
  assumes "CHR '','' \<notin> set a" "CHR '','' \<notin> set b"
  shows "remove_data_url_prefix (a @ '','' @ b) = Inr b"
    and "remove_data_url_prefix (a @ '','' @ b @ '','' @ rest) = Inr b"
  using assms
  by (simp_all add: remove_data_url_prefix_def py_index_def split_chr_append split_chr_no_sep)

subsection \<open>The feature vector\<close>

lemma length_np_histogram: "length (np_histogram a bins) = bins"
  by (simp add: np_histogram_def Let_def split: prod.splits)

lemma length_np_fft_fft: "length (np_fft_fft a) = length a"
  by (simp add: np_fft_fft_def Let_def)

lemma extract_body_decoded:
  assumes "remove_data_url_prefix s = Inr p" "b64decode p = Inr bs" "bs \<noteq> []"
  shows "extract_audio_features_body s =
     Inr ([np_mean bs, np_std bs, byte_float (Max (set bs)), byte_float (Min (set bs)), np_median bs]
          @ map real (np_histogram bs 50)
          @ (if length bs > 512 then take 50 (map cmod (np_fft_fft (take 512 bs))) @ replicate 95 0
             else replicate 145 0))"
  using assms
  by (simp add: extract_audio_features_body_def np_max_def np_min_def Let_def
        length_np_histogram length_np_fft_fft)

lemma extract_body_empty:
  assumes "remove_data_url_prefix s = Inr p" "b64decode p = Inr []"
  shows "extract_audio_features_body s =
     Inl (ValueError ''zero-size array to reduction operation maximum which has no identity'')"
  using assms
  by (simp add: extract_audio_features_body_def np_max_def)

lemma histogram_outer_edges_bounds:
  assumes "xs \<noteq> []" "histogram_outer_edges xs = (lo, hi)" "x \<in> set xs"
  shows "lo \<le> x \<and> x \<le> hi \<and> lo < hi"
proof -
  have fin: "finite (set xs)" by simp
  have mn: "Min (set xs) \<le> x" using assms(3) by simp
  have mx: "x \<le> Max (set xs)" using assms(3) by simp
  show ?thesis
  proof (cases "Min (set xs) = Max (set xs)")
    case True
    with assms(1,2) have "lo = Min (set xs) - 1 / 2" "hi = Max (set xs) + 1 / 2"
      by (simp_all add: histogram_outer_edges_def Let_def)
    with mn mx True show ?thesis by simp
  next
    case False
    with assms(1,2) have eq: "lo = Min (set xs)" "hi = Max (set xs)"
      by (simp_all add: histogram_outer_edges_def Let_def)
    have "Min (set xs) \<le> Max (set xs)" using mn mx by simp
    with False have "Min (set xs) < Max (set xs)" by simp
    with eq mn mx show ?thesis by simp
  qed
qed

lemma histogram_bin_less:
  assumes "lo \<le> x" "x \<le> hi" "lo < hi" "0 < bins"
  shows "histogram_bin lo hi bins x < bins"
proof (cases "x = hi")
  case True
  with assms(4) show ?thesis by (simp add: histogram_bin_def)
next
  case False
  with assms have lt: "x < hi" by simp
  define q where "q = (x - lo) / (hi - lo)"
  have q0: "0 \<le> q" using assms by (simp add: q_def)
  have q1: "q < 1" using assms lt by (simp add: q_def)
  have "q * real bins < real bins" using q1 assms(4) by simp
  then have "\<lfloor>q * real bins\<rfloor> < int bins" by (simp add: floor_less_iff)
  moreover have "0 \<le> \<lfloor>q * real bins\<rfloor>" using q0 by simp
  ultimately have "nat \<lfloor>q * real bins\<rfloor> < bins" by linarith
  with False show ?thesis by (simp add: histogram_bin_def q_def)
qed

lemma np_histogram_has_count:
  assumes "a \<noteq> []" "0 < bins"
  shows "\<exists>i<bins. 1 \<le> np_histogram a bins ! i"
proof -
  define xs where "xs = map byte_float a"
  obtain lo hi where edges: "histogram_outer_edges xs = (lo, hi)" by (cases "histogram_outer_edges xs")
  have ne: "xs \<noteq> []" using assms(1) by (simp add: xs_def)
  then obtain x where x: "x \<in> set xs" by (cases xs) auto
  from histogram_outer_edges_bounds [OF ne edges x]
  have b: "lo \<le> x" "x \<le> hi" "lo < hi" by simp_all
  define i where "i = histogram_bin lo hi bins x"
  have i: "i < bins" unfolding i_def by (rule histogram_bin_less [OF b assms(2)])
  have "x \<in> set (filter (\<lambda>y. histogram_bin lo hi bins y = i) xs)" using x by (simp add: i_def)
  then have "0 < length (filter (\<lambda>y. histogram_bin lo hi bins y = i) xs)"
    by (rule length_pos_if_in_set)
  then have "1 \<le> length (filter (\<lambda>y. histogram_bin lo hi bins y = i) xs)"
    by linarith
  moreover have "np_histogram a bins ! i = length (filter (\<lambda>y. histogram_bin lo hi bins y = i) xs)"
    using i edges by (simp add: np_histogram_def xs_def [symmetric])
  ultimately show ?thesis using i by auto
qed

lemma np_linalg_norm_nonzero:
  assumes "x \<in> set v" "x \<noteq> 0"
  shows "np_linalg_norm v \<noteq> 0"
proof -
  have nonneg: "\<forall>y \<in> set (map (\<lambda>x. x\<^sup>2) v). 0 \<le> y" by auto
  have "(\<Sum>x\<leftarrow>v. x\<^sup>2) \<noteq> 0"
  proof
    assume "(\<Sum>x\<leftarrow>v. x\<^sup>2) = 0"
    with nonneg have "\<forall>y \<in> set (map (\<lambda>x. x\<^sup>2) v). y = 0"
      by (simp only: sum_list_nonneg_eq_0_iff)
    with assms(1) have "x\<^sup>2 = 0" by auto
    with assms(2) show False by simp
  qed
  then show ?thesis by (simp add: np_linalg_norm_def)
qed

lemma np_dot_self: "np_dot v v = Inr (\<Sum>x\<leftarrow>v. x\<^sup>2)"
  by (simp add: np_dot_def zip_same_conv_map comp_def power2_eq_square)

lemma np_linalg_norm_square: "np_linalg_norm v * np_linalg_norm v = (\<Sum>x\<leftarrow>v. x\<^sup>2)"
proof -
  have "0 \<le> (\<Sum>x\<leftarrow>v. x\<^sup>2)" by (rule sum_list_nonneg) auto
  then show ?thesis by (simp add: np_linalg_norm_def)
qed

lemma extract_audio_features_Inr:
  assumes "extract_audio_features s = Inr fs"
  shows "\<exists>p bs. remove_data_url_prefix s = Inr p \<and> b64decode p = Inr bs \<and> bs \<noteq> [] \<and>
     fs = [np_mean bs, np_std bs, byte_float (Max (set bs)), byte_float (Min (set bs)), np_median bs]
          @ map real (np_histogram bs 50)
          @ (if length bs > 512 then take 50 (map cmod (np_fft_fft (take 512 bs))) @ replicate 95 0
             else replicate 145 0)"
proof -
  from assms have body: "extract_audio_features_body s = Inr fs"
    by (simp add: extract_audio_features_def split: sum.splits)
  obtain p where p: "remove_data_url_prefix s = Inr p" using remove_data_url_prefix_total by blast
  from body p obtain bs where bs: "b64decode p = Inr bs"
    by (cases "b64decode p") (simp_all add: extract_audio_features_body_def)
  have ne: "bs \<noteq> []"
  proof
    assume "bs = []"
    with p bs body show False by (simp add: extract_body_empty)
  qed
  from extract_body_decoded [OF p bs ne] body p bs ne show ?thesis by simp
qed

lemma extract_audio_features_norm:
  assumes "extract_audio_features s = Inr fs"
  shows "np_linalg_norm fs \<noteq> 0"
proof -
  from extract_audio_features_Inr [OF assms] obtain p bs where
    ne: "bs \<noteq> []" and
    fs: "fs = [np_mean bs, np_std bs, byte_float (Max (set bs)), byte_float (Min (set bs)), np_median bs]
          @ map real (np_histogram bs 50)
          @ (if length bs > 512 then take 50 (map cmod (np_fft_fft (take 512 bs))) @ replicate 95 0
             else replicate 145 0)"
    by blast
  from np_histogram_has_count [OF ne, of 50] obtain i where
    i: "i < 50" "1 \<le> np_histogram bs 50 ! i" by auto
  have "np_histogram bs 50 ! i \<in> set (np_histogram bs 50)"
    using i(1) by (simp add: length_np_histogram)
  then have "real (np_histogram bs 50 ! i) \<in> set fs" by (simp add: fs)
  moreover have "real (np_histogram bs 50 ! i) \<noteq> 0" using i(2) by simp
  ultimately show ?thesis by (rule np_linalg_norm_nonzero)
qed

subsection \<open>A three-byte sample\<close>

text \<open>The payload \<^verbatim>\<open>AAAA\<close> decodes to three zero bytes, \<^verbatim>\<open>AQID\<close> to the bytes 1, 2, 3.\<close>

lemma b64decode_AAAA: "b64decode ''AAAA'' = Inr [0, 0, 0]"
  by (simp add: b64decode_def table_a2b_base64_def)

lemma b64decode_AQID: "b64decode ''AQID'' = Inr [1, 2, 3]"
  by (simp add: b64decode_def table_a2b_base64_def)

lemma b64decode_empty: "b64decode [] = Inr []"
  by (simp add: b64decode_def)

lemma hist_AAAA: "np_histogram [0, 0, 0] 50 = replicate 25 0 @ [3] @ replicate 24 0"
  by (simp add: np_histogram_def histogram_outer_edges_def histogram_bin_def byte_float_def
        upt_rec numeral_eq_Suc)

lemma stats_AAAA: "np_mean [0,0,0] = 0" "np_std [0,0,0] = 0" "np_median [0,0,0] = 0"
  by (simp_all add: np_mean_def np_std_def np_median_def byte_float_def)

lemma features_AAAA:
  "extract_audio_features ''AAAA'' =
     Inr ([0, 0, 0, 0, 0] @ (replicate 25 0 @ [3] @ replicate 24 0) @ replicate 145 0)"
proof -
  have p: "remove_data_url_prefix ''AAAA'' = Inr ''AAAA''"
    by (simp add: remove_data_url_prefix_def)
  have ne: "[0, 0, 0 :: 8 word] \<noteq> []" by simp
  have "extract_audio_features_body ''AAAA'' =
     Inr ([0, 0, 0, 0, 0] @ (replicate 25 0 @ [3] @ replicate 24 0) @ replicate 145 0)"
    by (simp add: extract_body_decoded [OF p b64decode_AAAA ne] hist_AAAA stats_AAAA
          byte_float_def)
  then show ?thesis by (simp add: extract_audio_features_def)
qed

lemma extract_audio_features_payload:
  assumes "remove_data_url_prefix s = remove_data_url_prefix s'"
  shows "extract_audio_features s = extract_audio_features s'"
  using assms by (simp add: extract_audio_features_def extract_audio_features_body_def)

lemma extract_audio_features_mean:
  assumes "remove_data_url_prefix s = Inr p" "b64decode p = Inr bs" "bs \<noteq> []"
  shows "\<exists>fs. extract_audio_features s = Inr (np_mean bs # fs)"
  using extract_body_decoded [OF assms] by (simp add: extract_audio_features_def)

subsection \<open>Verification, step by step\<close>

text \<open>Once the probe features, the decrypted text, the stored features and their dot
  product exist, the body of \<open>verify_voice\<close> returns a record that depends on them and
  on the tolerance only.\<close>

lemma verify_voice_body_eq:
  assumes "extract_audio_features a = Inr new"
    and "decrypt_data env c = Inr js"
    and "json_loads env js = Inr stored"
    and "np_dot new stored = Inr d"
  shows "verify_voice_body env a c t =
     (let sim = (if np_linalg_norm new = 0 \<or> np_linalg_norm stored = 0 then 0
                 else d / (np_linalg_norm new * np_linalg_norm stored))
      in Inr \<lparr>success = (sim \<ge> 1 - t), confidence = max 0 (min 100 (sim * 100)),
              similarity = sim, threshold = 1 - t\<rparr>)"
  using assms by (simp add: verify_voice_body_def np_true_divide_def Let_def)

lemma verify_voice_eq:
  assumes "extract_audio_features a = Inr new"
    and "decrypt_data env c = Inr js"
    and "json_loads env js = Inr stored"
    and "np_dot new stored = Inr d"
  shows "verify_voice env a c t =
     (let sim = (if np_linalg_norm new = 0 \<or> np_linalg_norm stored = 0 then 0
                 else d / (np_linalg_norm new * np_linalg_norm stored))
      in Inr \<lparr>success = (sim \<ge> 1 - t), confidence = max 0 (min 100 (sim * 100)),
              similarity = sim, threshold = 1 - t\<rparr>)"
  by (simp add: verify_voice_def verify_voice_body_eq [OF assms] Let_def)

lemma verify_voice_Inr:
  assumes "verify_voice env a c t = Inr r"
  shows "\<exists>new js stored d. extract_audio_features a = Inr new \<and> decrypt_data env c = Inr js \<and>
     json_loads env js = Inr stored \<and> np_dot new stored = Inr d"
proof -
  from assms have body: "verify_voice_body env a c t = Inr r"
    by (simp add: verify_voice_def split: sum.splits)
  then obtain new where n: "extract_audio_features a = Inr new"
    by (cases "extract_audio_features a") (simp_all add: verify_voice_body_def)
  with body obtain js where j: "decrypt_data env c = Inr js"
    by (cases "decrypt_data env c") (simp_all add: verify_voice_body_def)
  with body n obtain stored where s: "json_loads env js = Inr stored"
    by (cases "json_loads env js") (simp_all add: verify_voice_body_def)
  with body n j obtain d where d: "np_dot new stored = Inr d"
    by (cases "np_dot new stored") (simp_all add: verify_voice_body_def)
  from n j s d show ?thesis by blast
qed

lemma verify_voice_same_features:
  assumes "extract_audio_features a = Inr v"
    and "decrypt_data env c = Inr js"
    and "json_loads env js = Inr v"
  shows "verify_voice env a c t =
     Inr \<lparr>success = (0 \<le> t), confidence = 100, similarity = 1, threshold = 1 - t\<rparr>"
proof -
  have nz: "np_linalg_norm v \<noteq> 0" using assms(1) by (rule extract_audio_features_norm)
  have sq: "(\<Sum>x\<leftarrow>v. x\<^sup>2) = np_linalg_norm v * np_linalg_norm v"
    by (simp only: np_linalg_norm_square)
  show ?thesis
    using nz by (simp add: verify_voice_eq [OF assms np_dot_self] sq)
qed

lemma np_dot_uminus: "np_dot v (map uminus v) = Inr (- (\<Sum>x\<leftarrow>v. x\<^sup>2))"
proof -
  have "(\<Sum>(x, y)\<leftarrow>zip v (map uminus v). x * y) = - (\<Sum>x\<leftarrow>v. x\<^sup>2)"
    by (induction v) (simp_all add: power2_eq_square)
  then show ?thesis by (simp add: np_dot_def)
qed

lemma np_linalg_norm_uminus: "np_linalg_norm (map uminus v) = np_linalg_norm v"
  by (simp add: np_linalg_norm_def comp_def)

lemma verify_voice_negated_features:
  assumes "extract_audio_features a = Inr v"
    and "decrypt_data env c = Inr js"
    and "json_loads env js = Inr (map uminus v)"
  shows "verify_voice env a c t =
     Inr \<lparr>success = (2 \<le> t), confidence = 0, similarity = - 1, threshold = 1 - t\<rparr>"
proof -
  have nz: "np_linalg_norm v \<noteq> 0" using assms(1) by (rule extract_audio_features_norm)
  have sq: "(\<Sum>x\<leftarrow>v. x\<^sup>2) = np_linalg_norm v * np_linalg_norm v"
    by (simp only: np_linalg_norm_square)
  show ?thesis
    using nz by (simp add: verify_voice_eq [OF assms np_dot_uminus] sq np_linalg_norm_uminus)
qed

lemma np_linalg_norm_zeros: "np_linalg_norm (replicate n 0) = 0"
proof -
  have "sum_list (replicate n (0 :: real)) = 0" by (induction n) simp_all
  then show ?thesis by (simp add: np_linalg_norm_def)
qed

subsection \<open>A payload that does not decode\<close>

text \<open>Two alphabet characters are half a group: \<^verbatim>\<open>b64decode\<close> raises.\<close>

lemma b64decode_AA: "b64decode ''AA'' = Inl (BinasciiError ''Incorrect padding'')"
  by (simp add: b64decode_def table_a2b_base64_def)

lemma body_AA:
  "extract_audio_features_body ''AA'' = Inl (BinasciiError ''Incorrect padding'')"
  "detect_voice_in_audio_body ''AA'' = Inl (BinasciiError ''Incorrect padding'')"
  by (simp_all add: extract_audio_features_body_def detect_voice_in_audio_body_def
        remove_data_url_prefix_def b64decode_AA)

section \<open>The claims\<close>

subsection \<open>Feature extractor\<close>

text \<open>C1, as amended. For every input whose payload, after the prefix is stripped, is
  valid base64 and decodes to at least one byte, \<open>extract_audio_features\<close> returns a
  list of exactly 200 values.\<close>

theorem extract_audio_features_length:
  assumes "remove_data_url_prefix audio_base64 = Inr payload"
    and "b64decode payload = Inr byte_array"
    and "byte_array \<noteq> []"
  shows "\<exists>features. extract_audio_features audio_base64 = Inr features \<and> length features = 200"
  using extract_body_decoded [OF assms]
  by (simp add: extract_audio_features_def length_np_histogram length_np_fft_fft)

text \<open>The three zero bytes of \<^verbatim>\<open>AAAA\<close>.\<close>

theorem extract_audio_features_length_witness:
  "remove_data_url_prefix ''AAAA'' = Inr ''AAAA'' \<and> b64decode ''AAAA'' = Inr [0, 0, 0] \<and>
   (\<exists>features. extract_audio_features ''AAAA'' = Inr features \<and> length features = 200)"
proof -
  have p: "remove_data_url_prefix ''AAAA'' = Inr ''AAAA''"
    by (simp add: remove_data_url_prefix_def)
  have ne: "[0, 0, 0 :: 8 word] \<noteq> []" by simp
  from extract_audio_features_length [OF p b64decode_AAAA ne] p b64decode_AAAA
  show ?thesis by simp
qed

text \<open>C1 as stated fails on the empty payload: it is valid base64, it decodes to the
  empty buffer, and \<^verbatim>\<open>np.max\<close> raises on it, so the extractor raises its
  extraction-failure error instead of returning 200 values.\<close>

theorem extract_audio_features_empty_payload:
  "remove_data_url_prefix ''data:audio/wav;base64,'' = Inr [] \<and>
   b64decode [] = Inr [] \<and>
   extract_audio_features ''data:audio/wav;base64,'' =
     Inl (ValueError (''Audio feature extraction failed: ''
       @ ''zero-size array to reduction operation maximum which has no identity''))"
proof -
  have p: "remove_data_url_prefix ''data:audio/wav;base64,'' = Inr []"
    by (simp add: remove_data_url_prefix_def py_index_def)
  from extract_body_empty [OF p b64decode_empty] p b64decode_empty
  show ?thesis by (simp add: extract_audio_features_def)
qed

text \<open>C5. When the decoded buffer has at most 512 bytes, the FFT step is skipped: a
  non-empty buffer yields a vector, and every vector returned has 200 entries, which are
  the five statistics, the fifty histogram counts and 145 zeros, so that positions 155
  to 199 are exactly zero.\<close>

theorem padding_without_fft:
  assumes "remove_data_url_prefix audio_base64 = Inr payload"
    and "b64decode payload = Inr byte_array"
    and "length byte_array \<le> 512"
  shows "(byte_array \<noteq> [] \<longrightarrow> (\<exists>features. extract_audio_features audio_base64 = Inr features)) \<and>
    (\<forall>features. extract_audio_features audio_base64 = Inr features \<longrightarrow>
       length features = 200 \<and>
       features =
         [np_mean byte_array, np_std byte_array, byte_float (Max (set byte_array)),
          byte_float (Min (set byte_array)), np_median byte_array]
         @ map real (np_histogram byte_array 50) @ replicate 145 0 \<and>
       (\<forall>i \<in> {155..199}. features ! i = 0))"
proof (intro conjI impI allI)
  assume "byte_array \<noteq> []"
  from extract_body_decoded [OF assms(1,2) this]
  show "\<exists>features. extract_audio_features audio_base64 = Inr features"
    by (simp add: extract_audio_features_def)
next
  fix features
  assume ok: "extract_audio_features audio_base64 = Inr features"
  from extract_audio_features_Inr [OF ok] assms
  have eq: "features =
         [np_mean byte_array, np_std byte_array, byte_float (Max (set byte_array)),
          byte_float (Min (set byte_array)), np_median byte_array]
         @ map real (np_histogram byte_array 50) @ replicate 145 0"
    by auto
  show "features =
         [np_mean byte_array, np_std byte_array, byte_float (Max (set byte_array)),
          byte_float (Min (set byte_array)), np_median byte_array]
         @ map real (np_histogram byte_array 50) @ replicate 145 0"
    by (rule eq)
  show "length features = 200"
    by (simp add: eq length_np_histogram)
  show "\<forall>i \<in> {155..199}. features ! i = 0"
  proof
    fix i :: nat
    assume "i \<in> {155..199}"
    then have i: "155 \<le> i" "i \<le> 199" by simp_all
    define pre where "pre = [np_mean byte_array, np_std byte_array,
          byte_float (Max (set byte_array)), byte_float (Min (set byte_array)),
          np_median byte_array] @ map real (np_histogram byte_array 50)"
    have len: "length pre = 55" by (simp add: pre_def length_np_histogram)
    have "features = pre @ replicate 145 0" by (simp add: eq pre_def)
    then have "features ! i = replicate 145 0 ! (i - 55)"
      using i len by (simp add: nth_append)
    also have "\<dots> = 0" using i by simp
    finally show "features ! i = 0" .
  qed
qed

text \<open>On the three zero bytes of \<^verbatim>\<open>AAAA\<close>, position 155.\<close>

theorem padding_without_fft_witness:
  "remove_data_url_prefix ''AAAA'' = Inr ''AAAA'' \<and> b64decode ''AAAA'' = Inr [0, 0, 0] \<and>
   length [0, 0, 0 :: 8 word] \<le> 512 \<and>
   extract_audio_features ''AAAA'' =
     Inr ([0, 0, 0, 0, 0] @ (replicate 25 0 @ [3] @ replicate 24 0) @ replicate 145 0) \<and>
   ([0, 0, 0, 0, 0] @ (replicate 25 0 @ [3] @ replicate 24 0) @ replicate 145 0) ! 155 = (0 :: real)"
proof -
  have p: "remove_data_url_prefix ''AAAA'' = Inr ''AAAA''"
    by (simp add: remove_data_url_prefix_def)
  have len: "length [0, 0, 0 :: 8 word] \<le> 512" by simp
  have "155 \<in> {155..199 :: nat}" by simp
  with padding_without_fft [OF p b64decode_AAAA len] features_AAAA
  have "([0, 0, 0, 0, 0] @ (replicate 25 0 @ [3] @ replicate 24 0) @ replicate 145 0) ! 155 = (0 :: real)"
    by blast
  with p b64decode_AAAA features_AAAA show ?thesis by simp
qed

text \<open>C6, as amended. For every prefix and every payload neither of which contains a
  comma, the extractor returns on \<open>prefix + "," + payload\<close> what it returns on the
  bare payload. The stripping step splits on every comma and keeps the second field:
  the text between the first comma and the second, or up to the end when there is no
  second comma.\<close>

theorem data_url_prefix_stripped:
  assumes "CHR '','' \<notin> set prefix" and "CHR '','' \<notin> set p"
  shows "extract_audio_features (prefix @ '','' @ p) = extract_audio_features p \<and>
    remove_data_url_prefix (prefix @ '','' @ p) = Inr p \<and>
    (\<forall>rest. remove_data_url_prefix (prefix @ '','' @ p @ '','' @ rest) = Inr p)"
proof -
  have strip: "remove_data_url_prefix (prefix @ '','' @ p) = Inr p"
    using assms by (rule remove_data_url_prefix_field(1))
  have "remove_data_url_prefix p = Inr p"
    using assms(2) by (rule remove_data_url_prefix_no_comma)
  with strip have "extract_audio_features (prefix @ '','' @ p) = extract_audio_features p"
    by (intro extract_audio_features_payload) simp
  moreover have "\<forall>rest. remove_data_url_prefix (prefix @ '','' @ p @ '','' @ rest) = Inr p"
    using remove_data_url_prefix_field(2) [OF assms] by blast
  ultimately show ?thesis using strip by simp
qed

text \<open>A data URL with the payload \<^verbatim>\<open>AAAA\<close>, and the same with a second comma behind
  the payload.\<close>

theorem data_url_prefix_stripped_witness:
  "extract_audio_features (''data:audio/wav;base64'' @ '','' @ ''AAAA'') = extract_audio_features ''AAAA'' \<and>
   remove_data_url_prefix (''data:audio/wav;base64'' @ '','' @ ''AAAA'') = Inr ''AAAA'' \<and>
   remove_data_url_prefix (''data:audio/wav;base64'' @ '','' @ ''AAAA'' @ '','' @ ''AQID'') = Inr ''AAAA''"
proof -
  have a: "CHR '','' \<notin> set ''data:audio/wav;base64''" by simp
  have b: "CHR '','' \<notin> set ''AAAA''" by simp
  from data_url_prefix_stripped [OF a b] show ?thesis by blast
qed

text \<open>C6 as stated fails as soon as the input has a second comma, because the step
  keeps the second field and not the whole remainder. With the payload \<^verbatim>\<open>AQID,AAAA\<close>
  (which \<^verbatim>\<open>b64decode\<close> accepts, skipping the comma) behind an ordinary data-URL prefix,
  the prefixed input yields the features of the bytes 1, 2, 3 and the bare payload those
  of three zero bytes. With the payload \<^verbatim>\<open>AAAA\<close> behind a prefix that contains a comma,
  the prefixed input yields the features of the bytes 1, 2, 3 again.\<close>

theorem data_url_second_comma_counterexample:
  "remove_data_url_prefix (''data:audio/wav;base64'' @ '','' @ ''AQID,AAAA'') = Inr ''AQID'' \<and>
   extract_audio_features (''data:audio/wav;base64'' @ '','' @ ''AQID,AAAA'')
     \<noteq> extract_audio_features ''AQID,AAAA'' \<and>
   remove_data_url_prefix (''a,AQID'' @ '','' @ ''AAAA'') = Inr ''AQID'' \<and>
   extract_audio_features (''a,AQID'' @ '','' @ ''AAAA'') \<noteq> extract_audio_features ''AAAA''"
proof -
  have p1: "remove_data_url_prefix (''data:audio/wav;base64'' @ '','' @ ''AQID,AAAA'') = Inr ''AQID''"
    by (simp add: remove_data_url_prefix_def py_index_def)
  have p2: "remove_data_url_prefix ''AQID,AAAA'' = Inr ''AAAA''"
    by (simp add: remove_data_url_prefix_def py_index_def)
  have p3: "remove_data_url_prefix (''a,AQID'' @ '','' @ ''AAAA'') = Inr ''AQID''"
    by (simp add: remove_data_url_prefix_def py_index_def)
  have p4: "remove_data_url_prefix ''AAAA'' = Inr ''AAAA''"
    by (simp add: remove_data_url_prefix_def)
  have ne0: "[0, 0, 0 :: 8 word] \<noteq> []" and ne1: "[1, 2, 3 :: 8 word] \<noteq> []" by simp_all
  have m0: "np_mean [0, 0, 0] = 0" and m1: "np_mean [1, 2, 3] = 2"
    by (simp_all add: np_mean_def byte_float_def)
  from extract_audio_features_mean [OF p1 b64decode_AQID ne1]
  obtain f1 where f1: "extract_audio_features (''data:audio/wav;base64'' @ '','' @ ''AQID,AAAA'') = Inr (2 # f1)"
    by (auto simp: m1)
  from extract_audio_features_mean [OF p2 b64decode_AAAA ne0]
  obtain f2 where f2: "extract_audio_features ''AQID,AAAA'' = Inr (0 # f2)"
    by (auto simp: m0)
  from extract_audio_features_mean [OF p3 b64decode_AQID ne1]
  obtain f3 where f3: "extract_audio_features (''a,AQID'' @ '','' @ ''AAAA'') = Inr (2 # f3)"
    by (auto simp: m1)
  from extract_audio_features_mean [OF p4 b64decode_AAAA ne0]
  obtain f4 where f4: "extract_audio_features ''AAAA'' = Inr (0 # f4)"
    by (auto simp: m0)
  show ?thesis using p1 p3 f1 f2 f3 f4 by simp
qed

subsection \<open>Enrollment and verification\<close>

text \<open>C2. When enrollment of an audio input succeeds, and decrypting returns what was
  encrypted, verifying the same audio against the returned ciphertext with the default
  tolerance returns similarity 1 and success. Feature values are exact reals here, so
  the similarity is exactly 1. The text written by \<^verbatim>\<open>json.dumps\<close> is assumed to be read
  back by \<^verbatim>\<open>json.loads\<close> as the same list, which is what Python's \<^verbatim>\<open>json\<close> does for a
  list of finite floats.\<close>

theorem enroll_then_verify:
  assumes "enroll_voice env audio_base64 = Inr encrypted_features"
    and "\<And>x c. encrypt_data env x = Inr c \<Longrightarrow> decrypt_data env c = Inr x"
    and "\<And>v. extract_audio_features audio_base64 = Inr v \<Longrightarrow>
           json_loads env (json_dumps env v) = Inr v"
  shows "\<exists>r. verify_voice env audio_base64 encrypted_features default_tolerance = Inr r \<and>
           similarity r = 1 \<and> success r"
proof -
  from assms(1) have body: "enroll_voice_body env audio_base64 = Inr encrypted_features"
    by (simp add: enroll_voice_def split: sum.splits)
  then obtain v where v: "extract_audio_features audio_base64 = Inr v"
    by (cases "extract_audio_features audio_base64") (simp_all add: enroll_voice_body_def)
  with body have enc: "encrypt_data env (json_dumps env v) = Inr encrypted_features"
    by (simp add: enroll_voice_body_def)
  have dec: "decrypt_data env encrypted_features = Inr (json_dumps env v)"
    using enc by (rule assms(2))
  have loads: "json_loads env (json_dumps env v) = Inr v"
    using v by (rule assms(3))
  have nz: "np_linalg_norm v \<noteq> 0" using v by (rule extract_audio_features_norm)
  have sq: "(\<Sum>x\<leftarrow>v. x\<^sup>2) = np_linalg_norm v * np_linalg_norm v"
    by (simp only: np_linalg_norm_square)
  have "verify_voice env audio_base64 encrypted_features default_tolerance =
     Inr \<lparr>success = True, confidence = 100, similarity = 1, threshold = 1 - default_tolerance\<rparr>"
    using nz by (simp add: verify_voice_eq [OF v dec loads np_dot_self] sq default_tolerance_def)
  then show ?thesis by simp
qed

text \<open>The three zero bytes of \<^verbatim>\<open>AAAA\<close>, with a cipher that leaves the text as it is.\<close>

theorem enroll_then_verify_witness:
  "enroll_voice
     \<lparr>fr_encrypt_data = Inr, fr_decrypt_data = Inr, json_dumps = (\<lambda>v. ''features''),
      json_loads = (\<lambda>s. Inr ([0, 0, 0, 0, 0] @ (replicate 25 0 @ [3] @ replicate 24 0)
                                @ replicate 145 0))\<rparr>
     ''AAAA'' = Inr ''features'' \<and>
   (\<exists>r. verify_voice
     \<lparr>fr_encrypt_data = Inr, fr_decrypt_data = Inr, json_dumps = (\<lambda>v. ''features''),
      json_loads = (\<lambda>s. Inr ([0, 0, 0, 0, 0] @ (replicate 25 0 @ [3] @ replicate 24 0)
                                @ replicate 145 0))\<rparr>
     ''AAAA'' ''features'' default_tolerance = Inr r \<and> similarity r = 1 \<and> success r)"
proof -
  define env where "env =
     \<lparr>fr_encrypt_data = Inr, fr_decrypt_data = Inr, json_dumps = (\<lambda>v. ''features''),
      json_loads = (\<lambda>s. Inr ([0, 0, 0, 0, 0] @ (replicate 25 0 @ [3] @ replicate 24 0)
                                @ replicate 145 (0 :: real)))\<rparr>"
  have enroll: "enroll_voice env ''AAAA'' = Inr ''features''"
    by (simp add: enroll_voice_def enroll_voice_body_def features_AAAA encrypt_data_def env_def)
  have crypto: "\<And>x c. encrypt_data env x = Inr c \<Longrightarrow> decrypt_data env c = Inr x"
    by (simp add: encrypt_data_def decrypt_data_def env_def)
  have json: "\<And>v. extract_audio_features ''AAAA'' = Inr v \<Longrightarrow>
      json_loads env (json_dumps env v) = Inr v"
    by (simp add: features_AAAA env_def)
  from enroll_then_verify [OF enroll crypto json] enroll
  show ?thesis unfolding env_def by simp
qed

text \<open>C3. When the norm test of \<open>verify_voice\<close> is reached (the features, the stored
  list and their dot product exist) and one of the two norms is zero, the division is
  not performed: the call returns a record, its similarity is 0, and for every
  tolerance below 1 its success flag is false.\<close>

theorem verify_voice_zero_norm:
  assumes "extract_audio_features audio_base64 = Inr new_features"
    and "decrypt_data env stored_encrypted_features = Inr decrypted_json"
    and "json_loads env decrypted_json = Inr stored_features"
    and "np_dot new_features stored_features = Inr dot_product"
    and "np_linalg_norm new_features = 0 \<or> np_linalg_norm stored_features = 0"
    and "tolerance < 1"
  shows "verify_voice env audio_base64 stored_encrypted_features tolerance =
     Inr \<lparr>success = False, confidence = 0, similarity = 0, threshold = 1 - tolerance\<rparr>"
  using assms(5,6) by (auto simp: verify_voice_eq [OF assms(1-4)])

text \<open>A stored list of 200 zeros.\<close>

theorem verify_voice_zero_norm_witness:
  "verify_voice
     \<lparr>fr_encrypt_data = Inr, fr_decrypt_data = Inr, json_dumps = (\<lambda>v. ''zeros''),
      json_loads = (\<lambda>s. Inr (replicate 200 0))\<rparr>
     ''AAAA'' ''zeros'' default_tolerance =
   Inr \<lparr>success = False, confidence = 0, similarity = 0, threshold = 1 - default_tolerance\<rparr>"
proof -
  define env where "env =
     \<lparr>fr_encrypt_data = Inr, fr_decrypt_data = Inr, json_dumps = (\<lambda>v :: real list. ''zeros''),
      json_loads = (\<lambda>s :: string. Inr (replicate 200 (0 :: real)) :: exn + real list)\<rparr>"
  have dec: "decrypt_data env ''zeros'' = Inr ''zeros''"
    by (simp add: decrypt_data_def env_def)
  have loads: "json_loads env ''zeros'' = Inr (replicate 200 0)"
    by (simp add: env_def)
  obtain d where dot: "np_dot ([0, 0, 0, 0, 0] @ (replicate 25 0 @ [3] @ replicate 24 0)
      @ replicate 145 0) (replicate 200 0) = Inr d"
    by (simp add: np_dot_def)
  have zero: "np_linalg_norm ([0, 0, 0, 0, 0] @ (replicate 25 0 @ [3] @ replicate 24 0)
      @ replicate 145 0) = 0 \<or> np_linalg_norm (replicate 200 0) = 0"
    by (simp add: np_linalg_norm_zeros)
  have tol: "default_tolerance < 1" by (simp add: default_tolerance_def)
  from verify_voice_zero_norm [OF features_AAAA dec loads dot zero tol]
  show ?thesis unfolding env_def .
qed

text \<open>C4. In the record returned by \<open>verify_voice\<close> with tolerance \<open>t\<close>, success holds
  exactly when the similarity is at least \<open>1 - t\<close>, and the threshold is \<open>1 - t\<close>.
  The similarity does not depend on the tolerance, so a match at some tolerance is a
  match at every greater one: the lower the tolerance, the stricter the test.\<close>

theorem verify_voice_decision:
  assumes "verify_voice env audio_base64 stored_encrypted_features tolerance = Inr r"
  shows "(success r \<longleftrightarrow> similarity r \<ge> 1 - tolerance) \<and> threshold r = 1 - tolerance \<and>
    (\<forall>tolerance' r'. tolerance \<le> tolerance' \<and>
        verify_voice env audio_base64 stored_encrypted_features tolerance' = Inr r' \<longrightarrow>
        similarity r' = similarity r \<and> (success r \<longrightarrow> success r'))"
proof -
  from verify_voice_Inr [OF assms] obtain new js stored d where
    h: "extract_audio_features audio_base64 = Inr new"
       "decrypt_data env stored_encrypted_features = Inr js"
       "json_loads env js = Inr stored" "np_dot new stored = Inr d"
    by blast
  note eq = verify_voice_eq [OF h]
  from assms eq [of tolerance] have r: "(success r \<longleftrightarrow> similarity r \<ge> 1 - tolerance)" "threshold r = 1 - tolerance"
    by (auto simp: Let_def)
  have "similarity r' = similarity r \<and> (success r \<longrightarrow> success r')"
    if "tolerance \<le> tolerance'" "verify_voice env audio_base64 stored_encrypted_features tolerance' = Inr r'"
    for tolerance' r'
    using that assms eq [of tolerance] eq [of tolerance'] by (auto simp: Let_def)
  with r show ?thesis by blast
qed

text \<open>The stored list is the feature vector of the probe.\<close>

theorem verify_voice_decision_witness:
  "verify_voice
     \<lparr>fr_encrypt_data = Inr, fr_decrypt_data = Inr, json_dumps = (\<lambda>v. ''features''),
      json_loads = (\<lambda>s. extract_audio_features ''AAAA'')\<rparr>
     ''AAAA'' ''features'' default_tolerance =
   Inr \<lparr>success = True, confidence = 100, similarity = 1, threshold = 1 - default_tolerance\<rparr> \<and>
   success \<lparr>success = True, confidence = 100, similarity = 1, threshold = 1 - default_tolerance\<rparr> \<and>
   similarity \<lparr>success = True, confidence = 100, similarity = 1,
      threshold = 1 - default_tolerance\<rparr> \<ge> 1 - default_tolerance \<and>
   threshold \<lparr>success = True, confidence = 100, similarity = 1,
      threshold = 1 - default_tolerance\<rparr> = 1 - default_tolerance"
proof -
  define env where "env =
     \<lparr>fr_encrypt_data = Inr, fr_decrypt_data = Inr, json_dumps = (\<lambda>v :: real list. ''features''),
      json_loads = (\<lambda>s :: string. extract_audio_features ''AAAA'')\<rparr>"
  have dec: "decrypt_data env ''features'' = Inr ''features''"
    by (simp add: decrypt_data_def env_def)
  have loads: "json_loads env ''features'' = Inr ([0, 0, 0, 0, 0]
      @ (replicate 25 0 @ [3] @ replicate 24 0) @ replicate 145 0)"
    by (simp add: env_def features_AAAA)
  have run: "verify_voice env ''AAAA'' ''features'' default_tolerance =
     Inr \<lparr>success = True, confidence = 100, similarity = 1, threshold = 1 - default_tolerance\<rparr>"
    by (simp add: verify_voice_same_features [OF features_AAAA dec loads] default_tolerance_def)
  from verify_voice_decision [OF run] run show ?thesis unfolding env_def by simp
qed

text \<open>C7. In the record returned by \<open>verify_voice\<close>, the confidence is the similarity
  times 100 clamped to the interval from 0 to 100; a negative similarity gives
  confidence 0, and no confidence is below 0 or above 100.\<close>

theorem verify_voice_confidence:
  assumes "verify_voice env audio_base64 stored_encrypted_features tolerance = Inr r"
  shows "confidence r = max 0 (min 100 (similarity r * 100)) \<and>
    (similarity r < 0 \<longrightarrow> confidence r = 0) \<and> 0 \<le> confidence r \<and> confidence r \<le> 100"
proof -
  from verify_voice_Inr [OF assms] obtain new js stored d where
    h: "extract_audio_features audio_base64 = Inr new"
       "decrypt_data env stored_encrypted_features = Inr js"
       "json_loads env js = Inr stored" "np_dot new stored = Inr d"
    by blast
  from assms verify_voice_eq [OF h, of tolerance]
  have "confidence r = max 0 (min 100 (similarity r * 100))"
    by (auto simp: Let_def)
  then show ?thesis by auto
qed

text \<open>The stored list is the negated feature vector of the probe: similarity \<open>-1\<close>.\<close>

theorem verify_voice_confidence_witness:
  "verify_voice
     \<lparr>fr_encrypt_data = Inr, fr_decrypt_data = Inr, json_dumps = (\<lambda>v. ''negated''),
      json_loads = (\<lambda>s. Inr (map uminus ([0, 0, 0, 0, 0]
         @ (replicate 25 0 @ [3] @ replicate 24 0) @ replicate 145 0)))\<rparr>
     ''AAAA'' ''negated'' default_tolerance =
   Inr \<lparr>success = False, confidence = 0, similarity = - 1, threshold = 1 - default_tolerance\<rparr> \<and>
   confidence \<lparr>success = False, confidence = 0, similarity = - 1,
      threshold = 1 - default_tolerance\<rparr> = 0"
proof -
  define env where "env =
     \<lparr>fr_encrypt_data = Inr, fr_decrypt_data = Inr, json_dumps = (\<lambda>v :: real list. ''negated''),
      json_loads = (\<lambda>s :: string. Inr (map uminus ([0, 0, 0, 0, 0]
         @ (replicate 25 0 @ [3] @ replicate 24 0) @ replicate 145 (0 :: real))) :: exn + real list)\<rparr>"
  have dec: "decrypt_data env ''negated'' = Inr ''negated''"
    by (simp add: decrypt_data_def env_def)
  have loads: "json_loads env ''negated'' = Inr (map uminus ([0, 0, 0, 0, 0]
      @ (replicate 25 0 @ [3] @ replicate 24 0) @ replicate 145 0))"
    by (simp add: env_def)
  have run: "verify_voice env ''AAAA'' ''negated'' default_tolerance =
     Inr \<lparr>success = False, confidence = 0, similarity = - 1, threshold = 1 - default_tolerance\<rparr>"
    by (simp add: verify_voice_negated_features [OF features_AAAA dec loads] default_tolerance_def)
  from verify_voice_confidence [OF run] run show ?thesis unfolding env_def by simp
qed

subsection \<open>Error handling\<close>

text \<open>C8. An operation among \<open>extract_audio_features\<close>, \<open>enroll_voice\<close> and
  \<open>verify_voice\<close> raises exactly when its body raises, and what it raises is a
  ValueError whose message is the operation's fixed prefix followed by the message of
  the exception raised inside. \<open>detect_voice_in_audio\<close> always returns a record; when
  its body raises, the record has \<open>voice_detected = False\<close>, no energy, and the message
  \<open>Error: \<close> followed by the message of the exception.\<close>

theorem failures_wrapped_or_absorbed:
  "(extract_audio_features a = Inl e \<longleftrightarrow>
      (\<exists>cause. extract_audio_features_body a = Inl cause \<and>
         e = ValueError (''Audio feature extraction failed: '' @ exn_str cause))) \<and>
   (enroll_voice env a = Inl e \<longleftrightarrow>
      (\<exists>cause. enroll_voice_body env a = Inl cause \<and>
         e = ValueError (''Voice enrollment failed: '' @ exn_str cause))) \<and>
   (verify_voice env a c t = Inl e \<longleftrightarrow>
      (\<exists>cause. verify_voice_body env a c t = Inl cause \<and>
         e = ValueError (''Voice verification failed: '' @ exn_str cause))) \<and>
   (\<exists>r. detect_voice_in_audio a = Inr r) \<and>
   (\<forall>cause. detect_voice_in_audio_body a = Inl cause \<longrightarrow>
      detect_voice_in_audio a =
        Inr \<lparr>voice_detected = False, energy = None, message = ''Error: '' @ exn_str cause\<rparr>)"
proof (intro conjI)
  show "extract_audio_features a = Inl e \<longleftrightarrow>
      (\<exists>cause. extract_audio_features_body a = Inl cause \<and>
         e = ValueError (''Audio feature extraction failed: '' @ exn_str cause))"
    by (cases "extract_audio_features_body a") (auto simp: extract_audio_features_def)
  show "enroll_voice env a = Inl e \<longleftrightarrow>
      (\<exists>cause. enroll_voice_body env a = Inl cause \<and>
         e = ValueError (''Voice enrollment failed: '' @ exn_str cause))"
    by (cases "enroll_voice_body env a") (auto simp: enroll_voice_def)
  show "verify_voice env a c t = Inl e \<longleftrightarrow>
      (\<exists>cause. verify_voice_body env a c t = Inl cause \<and>
         e = ValueError (''Voice verification failed: '' @ exn_str cause))"
    by (cases "verify_voice_body env a c t") (auto simp: verify_voice_def)
  show "\<exists>r. detect_voice_in_audio a = Inr r"
    by (cases "detect_voice_in_audio_body a") (auto simp: detect_voice_in_audio_def)
  show "\<forall>cause. detect_voice_in_audio_body a = Inl cause \<longrightarrow>
      detect_voice_in_audio a =
        Inr \<lparr>voice_detected = False, energy = None, message = ''Error: '' @ exn_str cause\<rparr>"
    by (simp add: detect_voice_in_audio_def)
qed

text \<open>The payload \<^verbatim>\<open>AA\<close>, in all four operations.\<close>

theorem failures_wrapped_or_absorbed_witness:
  "extract_audio_features ''AA'' =
     Inl (ValueError ''Audio feature extraction failed: Incorrect padding'') \<and>
   enroll_voice
     \<lparr>fr_encrypt_data = Inr, fr_decrypt_data = Inr, json_dumps = (\<lambda>v. ''features''),
      json_loads = (\<lambda>s. Inr [])\<rparr> ''AA'' =
     Inl (ValueError
       ''Voice enrollment failed: Audio feature extraction failed: Incorrect padding'') \<and>
   verify_voice
     \<lparr>fr_encrypt_data = Inr, fr_decrypt_data = Inr, json_dumps = (\<lambda>v. ''features''),
      json_loads = (\<lambda>s. Inr [])\<rparr> ''AA'' ''features'' default_tolerance =
     Inl (ValueError
       ''Voice verification failed: Audio feature extraction failed: Incorrect padding'') \<and>
   detect_voice_in_audio ''AA'' =
     Inr \<lparr>voice_detected = False, energy = None, message = ''Error: Incorrect padding''\<rparr>"
proof -
  define env where "env =
     \<lparr>fr_encrypt_data = Inr, fr_decrypt_data = Inr, json_dumps = (\<lambda>v :: real list. ''features''),
      json_loads = (\<lambda>s :: string. Inr [] :: exn + real list)\<rparr>"
  have ex: "extract_audio_features ''AA'' =
     Inl (ValueError ''Audio feature extraction failed: Incorrect padding'')"
    using failures_wrapped_or_absorbed [where a = "''AA''"
        and e = "ValueError ''Audio feature extraction failed: Incorrect padding''"]
      body_AA(1)
    by simp
  have enroll_body: "enroll_voice_body env ''AA'' =
     Inl (ValueError ''Audio feature extraction failed: Incorrect padding'')"
    by (simp add: enroll_voice_body_def ex)
  have verify_body: "verify_voice_body env ''AA'' ''features'' default_tolerance =
     Inl (ValueError ''Audio feature extraction failed: Incorrect padding'')"
    by (simp add: verify_voice_body_def ex)
  have en: "enroll_voice env ''AA'' = Inl (ValueError
       ''Voice enrollment failed: Audio feature extraction failed: Incorrect padding'')"
    using failures_wrapped_or_absorbed [where a = "''AA''" and env = env
        and e = "ValueError
          ''Voice enrollment failed: Audio feature extraction failed: Incorrect padding''"]
      enroll_body
    by simp
  have ve: "verify_voice env ''AA'' ''features'' default_tolerance = Inl (ValueError
       ''Voice verification failed: Audio feature extraction failed: Incorrect padding'')"
    using failures_wrapped_or_absorbed [where a = "''AA''" and env = env
        and c = "''features''" and t = default_tolerance
        and e = "ValueError
          ''Voice verification failed: Audio feature extraction failed: Incorrect padding''"]
      verify_body
    by simp
  have de: "detect_voice_in_audio ''AA'' =
     Inr \<lparr>voice_detected = False, energy = None, message = ''Error: Incorrect padding''\<rparr>"
    using failures_wrapped_or_absorbed [where a = "''AA''"] body_AA(2)
    by simp
  from ex en ve de show ?thesis unfolding env_def by simp
qed

subsection \<open>Voice-activity check\<close>

text \<open>C9. When the decoded buffer has fewer than 1000 bytes, \<open>detect_voice_in_audio\<close>
  returns \<open>voice_detected = False\<close> with the message \<^verbatim>\<open>Audio sample too short\<close> and
  no energy, whatever the bytes are.\<close>

theorem detect_voice_too_short:
  assumes "remove_data_url_prefix audio_base64 = Inr payload"
    and "b64decode payload = Inr byte_array"
    and "length byte_array < 1000"
  shows "detect_voice_in_audio audio_base64 =
     Inr \<lparr>voice_detected = False, energy = None, message = ''Audio sample too short''\<rparr>"
  using assms by (simp add: detect_voice_in_audio_def detect_voice_in_audio_body_def)

text \<open>A data URL with three zero bytes.\<close>

theorem detect_voice_too_short_witness:
  "remove_data_url_prefix ''data:audio/wav;base64,AAAA'' = Inr ''AAAA'' \<and>
   b64decode ''AAAA'' = Inr [0, 0, 0] \<and> length [0, 0, 0 :: 8 word] < 1000 \<and>
   detect_voice_in_audio ''data:audio/wav;base64,AAAA'' =
     Inr \<lparr>voice_detected = False, energy = None, message = ''Audio sample too short''\<rparr>"
proof -
  have p: "remove_data_url_prefix ''data:audio/wav;base64,AAAA'' = Inr ''AAAA''"
    by (simp add: remove_data_url_prefix_def py_index_def)
  have len: "length [0, 0, 0 :: 8 word] < 1000" by simp
  from detect_voice_too_short [OF p b64decode_AAAA len] p b64decode_AAAA
  show ?thesis by simp
qed

end
